theory Spec2Isabelle
  imports Complex_Main "HOL-Library.Char_ord" "HOL-Library.List_Lexorder"
begin

section \<open>Python values\<close>

text \<open>
  The values that reach \<^verbatim>\<open>schema.py\<close> are what \<^verbatim>\<open>json.loads\<close>, \<^verbatim>\<open>yaml.safe_load\<close> and
  \<^verbatim>\<open>DataFrame.to_dict\<close> return: nested dicts and lists over scalars. A scalar is every
  value that is neither a dict nor a list. Of a float the model keeps its \<^verbatim>\<open>repr\<close>, and of
  any other object (a \<^verbatim>\<open>datetime.date\<close> from YAML, say) its \<^verbatim>\<open>str\<close>: \<^verbatim>\<open>schema.py\<close> reads
  nothing else of them. A dict is an association list in insertion order; the key is kept
  as the text that an f-string renders for it.

  A value is a finite tree. A list or dict that contains itself, which a YAML alias can
  build, is represented by its unfolding: \<^verbatim>\<open>flatten\<close> descends into it until the recursion limit
  of the interpreter stops it (see \<open>flatten_call\<close>), and never sees more than that many levels.
\<close>

datatype scalar =
    SNone
  | SBool bool
  | SInt int
  | SFloat string
  | SStr string
  | SObj string

datatype pyval =
    Scalar scalar
  | PList "pyval list"
  | PDict "(string \<times> pyval) list"

type_synonym 'v pydict = "(string \<times> 'v) list"

text \<open>\<^verbatim>\<open>d[k] = v\<close> on an insertion-ordered dict: an existing key keeps its position.\<close>

fun dict_set :: "'v pydict \<Rightarrow> string \<Rightarrow> 'v \<Rightarrow> 'v pydict" where
  "dict_set [] k v = [(k, v)]"
| "dict_set ((k', v') # d) k v =
     (if k' = k then (k, v) # d else (k', v') # dict_set d k v)"

text \<open>\<^verbatim>\<open>d.update(other)\<close>: the items of \<^verbatim>\<open>other\<close> are stored one by one, in order.\<close>

fun dict_update :: "'v pydict \<Rightarrow> 'v pydict \<Rightarrow> 'v pydict" where
  "dict_update d [] = d"
| "dict_update d ((k, v) # other) = dict_update (dict_set d k v) other"

definition dict_get :: "'v pydict \<Rightarrow> string \<Rightarrow> 'v option" where
  "dict_get d k = map_of d k"

definition dict_keys :: "'v pydict \<Rightarrow> string list" where
  "dict_keys d = map fst d"

section \<open>Rendering integers\<close>

definition digit_char :: "nat \<Rightarrow> char" where
  "digit_char d = ''0123456789'' ! d"

fun str_nat :: "nat \<Rightarrow> string" where
  "str_nat n = (if n < 10 then [digit_char n] else str_nat (n div 10) @ [digit_char (n mod 10)])"

declare str_nat.simps [simp del]

definition str_int :: "int \<Rightarrow> string" where
  "str_int i = (if i < 0 then CHR ''-'' # str_nat (nat (- i)) else str_nat (nat i))"

text \<open>\<^verbatim>\<open>str(value)\<close> of a scalar.\<close>

fun py_str :: "scalar \<Rightarrow> string" where
  "py_str SNone = ''None''"
| "py_str (SBool b) = (if b then ''True'' else ''False'')"
| "py_str (SInt i) = str_int i"
| "py_str (SFloat r) = r"
| "py_str (SStr s) = s"
| "py_str (SObj s) = s"

section \<open>flatten\<close>

text \<open>
  \<^verbatim>\<open>flatten(document, prefix)\<close>. Its two iterations are \<open>flatten_dict\<close> and \<open>flatten_list\<close>, which
  carry the dict \<^verbatim>\<open>items\<close> built so far; \<open>flatten_list\<close> also carries the index of
  \<^verbatim>\<open>enumerate\<close>. The last branch stores the document itself, which is a scalar there.
\<close>

definition dict_child_prefix :: "string \<Rightarrow> string \<Rightarrow> string" where
  "dict_child_prefix prefix key = (if prefix \<noteq> [] then prefix @ ''.'' @ key else key)"

definition list_child_prefix :: "string \<Rightarrow> nat \<Rightarrow> string" where
  "list_child_prefix prefix idx = prefix @ ''['' @ str_nat idx @ '']''"

fun flatten :: "pyval \<Rightarrow> string \<Rightarrow> scalar pydict"
  and flatten_dict :: "(string \<times> pyval) list \<Rightarrow> string \<Rightarrow> scalar pydict \<Rightarrow> scalar pydict"
  and flatten_list :: "pyval list \<Rightarrow> string \<Rightarrow> nat \<Rightarrow> scalar pydict \<Rightarrow> scalar pydict"
where
  "flatten (PDict kvs) prefix = flatten_dict kvs prefix []"
| "flatten (PList vs) prefix = flatten_list vs prefix 0 []"
| "flatten (Scalar s) prefix = [(prefix, s)]"
| "flatten_dict [] prefix items = items"
| "flatten_dict ((key, value) # kvs) prefix items =
     flatten_dict kvs prefix
       (dict_update items (flatten value (dict_child_prefix prefix key)))"
| "flatten_list [] prefix idx items = items"
| "flatten_list (value # vs) prefix idx items =
     flatten_list vs prefix (Suc idx)
       (dict_update items (flatten value (list_child_prefix prefix idx)))"

text \<open>
  \<^verbatim>\<open>flatten\<close> calls itself on every value of a dict and every element of a list, scalars
  included, with no bound on the depth. \<open>call_depth\<close> is the number of nested calls that the
  deepest of them needs.
\<close>

fun call_depth :: "pyval \<Rightarrow> nat" where
  "call_depth (Scalar s) = 1"
| "call_depth (PList vs) = Suc (fold max (map call_depth vs) 0)"
| "call_depth (PDict kvs) = Suc (fold max (map (\<lambda>kv. call_depth (snd kv)) kvs) 0)"

section \<open>infer_type\<close>

text \<open>
  The \<^verbatim>\<open>isinstance\<close> tests. In Python \<^verbatim>\<open>bool\<close> is a subclass of \<^verbatim>\<open>int\<close>, so
  \<^verbatim>\<open>isinstance(True, int)\<close> holds.
\<close>

fun is_None :: "pyval \<Rightarrow> bool" where
  "is_None (Scalar SNone) = True"
| "is_None _ = False"

fun isinstance_bool :: "pyval \<Rightarrow> bool" where
  "isinstance_bool (Scalar (SBool _)) = True"
| "isinstance_bool _ = False"

fun isinstance_int :: "pyval \<Rightarrow> bool" where
  "isinstance_int (Scalar (SBool _)) = True"
| "isinstance_int (Scalar (SInt _)) = True"
| "isinstance_int _ = False"

fun isinstance_float :: "pyval \<Rightarrow> bool" where
  "isinstance_float (Scalar (SFloat _)) = True"
| "isinstance_float _ = False"

fun isinstance_list :: "pyval \<Rightarrow> bool" where
  "isinstance_list (PList _) = True"
| "isinstance_list _ = False"

fun isinstance_dict :: "pyval \<Rightarrow> bool" where
  "isinstance_dict (PDict _) = True"
| "isinstance_dict _ = False"

definition infer_type :: "pyval \<Rightarrow> string" where
  "infer_type v =
     (if is_None v then ''null''
      else if isinstance_bool v then ''boolean''
      else if isinstance_int v then ''integer''
      else if isinstance_float v then ''number''
      else if isinstance_list v then ''array''
      else if isinstance_dict v then ''object''
      else ''string'')"

section \<open>SchemaGenerator.build\<close>

subsection \<open>Per-path statistics\<close>

text \<open>
  One entry of \<^verbatim>\<open>field_stats\<close>. The two Python sets are lists without duplicates, in
  insertion order.
\<close>

record field_stat =
  count :: nat
  st_nullable :: bool
  examples :: "string list"
  st_types :: "string list"

definition default_stat :: field_stat where
  "default_stat = \<lparr>count = 0, st_nullable = False, examples = [], st_types = []\<rparr>"

definition set_add :: "string list \<Rightarrow> string \<Rightarrow> string list" where
  "set_add xs x = (if x \<in> set xs then xs else xs @ [x])"

text \<open>The body of the loop over \<^verbatim>\<open>flattened.items()\<close>, on the entry of the path.\<close>

definition observe :: "field_stat \<Rightarrow> scalar \<Rightarrow> field_stat" where
  "observe stats v =
     (let stats = stats\<lparr>count := count stats + 1\<rparr>
      in if v = SNone then stats\<lparr>st_nullable := True\<rparr>
         else stats\<lparr>examples := set_add (examples stats) (take 80 (py_str v)),
                    st_types := set_add (st_types stats) (infer_type (Scalar v))\<rparr>)"

text \<open>\<^verbatim>\<open>field_stats[path]\<close> on the \<^verbatim>\<open>defaultdict\<close>: a missing path starts from the default.\<close>

definition stat_of :: "field_stat pydict \<Rightarrow> string \<Rightarrow> field_stat" where
  "stat_of field_stats p = (case dict_get field_stats p of None \<Rightarrow> default_stat | Some st \<Rightarrow> st)"

fun aggregate_items :: "field_stat pydict \<Rightarrow> scalar pydict \<Rightarrow> field_stat pydict" where
  "aggregate_items field_stats [] = field_stats"
| "aggregate_items field_stats ((p, v) # items) =
     aggregate_items (dict_set field_stats p (observe (stat_of field_stats p) v)) items"

text \<open>
  A record is a dict that \<^verbatim>\<open>build\<close> reads at \<^verbatim>\<open>"data"\<close> and \<^verbatim>\<open>"collection"\<close>; a missing key
  is \<open>None\<close> and makes the subscript raise \<^verbatim>\<open>KeyError\<close>. The collection is a \<^verbatim>\<open>str\<close>, as in
  every record that \<^verbatim>\<open>parsers.py\<close> creates.
\<close>

record etl_record =
  data :: "pyval option"
  collection :: "string option"

text \<open>
  The exceptions that \<^verbatim>\<open>build\<close> can raise on such records: the \<^verbatim>\<open>KeyError\<close> of a subscript,
  with its key, and the \<^verbatim>\<open>RecursionError\<close> of a call of \<^verbatim>\<open>flatten\<close> nested deeper than the
  interpreter allows. \<open>frames\<close> is the number of nested calls that the recursion limit leaves
  to \<^verbatim>\<open>flatten\<close> where \<^verbatim>\<open>build\<close> calls it.
\<close>

datatype error = KeyError string | RecursionError

definition flatten_call :: "nat \<Rightarrow> pyval \<Rightarrow> string \<Rightarrow> error + scalar pydict" where
  "flatten_call frames document prefix =
     (if frames < call_depth document then Inl RecursionError
      else Inr (flatten document prefix))"

fun aggregate_records ::
  "nat \<Rightarrow> field_stat pydict \<Rightarrow> etl_record list \<Rightarrow> error + field_stat pydict"
where
  "aggregate_records frames field_stats [] = Inr field_stats"
| "aggregate_records frames field_stats (r # rs) =
     (case data r of
        None \<Rightarrow> Inl (KeyError ''data'')
      | Some d \<Rightarrow>
          (case collection r of
             None \<Rightarrow> Inl (KeyError ''collection'')
           | Some c \<Rightarrow>
               (case flatten_call frames d (''$.'' @ c) of
                  Inl err \<Rightarrow> Inl err
                | Inr flattened \<Rightarrow>
                    aggregate_records frames (aggregate_items field_stats flattened) rs)))"

subsection \<open>The confidence, a binary64 computation\<close>

text \<open>
  \<^verbatim>\<open>round(min(0.99, count / total_records), 2)\<close> computes on IEEE binary64 numbers. Each
  of them is a rational, and the model computes with these rationals exactly:
  \<^item> \<^verbatim>\<open>a / b\<close> on two ints is the binary64 number nearest to the quotient, ties to the even
    significand (CPython rounds true division correctly). \<open>float_div a b\<close> is that number
    for \<open>b > 0\<close>: \<open>e\<close> is the exponent with \<open>2^e \<le> a/b < 2^(e+1)\<close>, and the quotient is
    rounded to a multiple of \<open>2^(e-52)\<close>. The exponent is unbounded, which agrees with
    binary64 between \<open>2^-1022\<close> and \<open>2^1024\<close>; \<^verbatim>\<open>build\<close> divides a count by a list length.
  \<^item> the literal \<^verbatim>\<open>0.99\<close> is the binary64 number nearest to 99/100, \<open>float_div 99 100\<close>.
  \<^item> \<^verbatim>\<open>round(x, 2)\<close> converts the exact value of \<open>x\<close> to the nearest decimal with two
    places, ties to even, and that decimal back to the nearest binary64 number.
\<close>

definition round_half_even :: "rat \<Rightarrow> int" where
  "round_half_even q =
     (let f = \<lfloor>q\<rfloor>; d = q - of_int f
      in if d < 1 / 2 then f else if 1 / 2 < d then f + 1 else if even f then f else f + 1)"

text \<open>\<^verbatim>\<open>int.bit_length\<close>\<close>

fun bit_length :: "nat \<Rightarrow> nat" where
  "bit_length n = (if n = 0 then 0 else Suc (bit_length (n div 2)))"

declare bit_length.simps [simp del]

definition pow2 :: "int \<Rightarrow> rat" where
  "pow2 e = (if 0 \<le> e then 2 ^ nat e else 1 / 2 ^ nat (- e))"

definition float_div :: "nat \<Rightarrow> nat \<Rightarrow> rat" where
  "float_div a b =
     (if a = 0 then 0
      else let e0 = int (bit_length a) - int (bit_length b);
               e = (if of_nat a < pow2 e0 * of_nat b then e0 - 1 else e0);
               ulp = pow2 (e - 52)
           in of_int (round_half_even (of_nat a / of_nat b / ulp)) * ulp)"

definition py_round2 :: "rat \<Rightarrow> rat" where
  "py_round2 x =
     (let h = round_half_even (x * 100)
      in if h < 0 then - float_div (nat (- h)) 100 else float_div (nat h) 100)"

definition confidence_of :: "nat \<Rightarrow> nat \<Rightarrow> rat" where
  "confidence_of cnt total_records =
     py_round2 (min (float_div 99 100) (float_div cnt total_records))"

subsection \<open>Field entries\<close>

record field =
  name :: string
  path :: string
  types :: "string list"
  nullable :: bool
  example_value :: "string option"
  confidence :: rat
  suggested_index :: bool

text \<open>
  What \<^verbatim>\<open>build\<close> takes from outside its arguments: the attribute \<^verbatim>\<open>self.compatible_dbs\<close>,
  the clock (\<^verbatim>\<open>datetime.utcnow().isoformat()\<close>), the order in which CPython iterates a set of
  strings, of which \<^verbatim>\<open>next(iter(...))\<close> reads the first element, and the number of nested
  calls that the recursion limit leaves to \<^verbatim>\<open>flatten\<close>.
\<close>

record env =
  self_compatible_dbs :: "string list"
  utcnow_isoformat :: string
  set_first :: "string list \<Rightarrow> string"
  flatten_frames :: nat

definition endswith :: "string \<Rightarrow> string \<Rightarrow> bool" where
  "endswith s suffix =
     (length suffix \<le> length s \<and> drop (length s - length suffix) s = suffix)"

text \<open>\<^verbatim>\<open>path.split(".")[-1]\<close>: the text after the last dot.\<close>

definition last_segment :: "string \<Rightarrow> string" where
  "last_segment p = rev (takeWhile (\<lambda>c. c \<noteq> CHR ''.'') (rev p))"

definition field_entry :: "env \<Rightarrow> nat \<Rightarrow> string \<Rightarrow> field_stat \<Rightarrow> field" where
  "field_entry e total_records p stats =
     \<lparr>name = last_segment p,
      path = p,
      types = (let ts = sort (st_types stats) in if ts = [] then [''string''] else ts),
      nullable = st_nullable stats,
      example_value = (if examples stats = [] then None else Some (set_first e (examples stats))),
      confidence = confidence_of (count stats) total_records,
      suggested_index = endswith p ''id''\<rparr>"

text \<open>The loop over \<^verbatim>\<open>sorted(field_stats.items())\<close>, with its two result lists.\<close>

fun emit_fields ::
  "env \<Rightarrow> nat \<Rightarrow> (string \<times> field_stat) list \<Rightarrow> field list \<Rightarrow> string list \<Rightarrow>
     field list \<times> string list"
where
  "emit_fields e total_records [] field_list primary_candidates =
     (field_list, primary_candidates)"
| "emit_fields e total_records ((p, stats) # rest) field_list primary_candidates =
     (let fe = field_entry e total_records p stats
      in emit_fields e total_records rest (field_list @ [fe])
           (if suggested_index fe then primary_candidates @ [path fe] else primary_candidates))"

subsection \<open>Schema documents and their diff\<close>

text \<open>
  The key \<^verbatim>\<open>fields\<close> is \<open>schema_fields\<close>. The key \<^verbatim>\<open>ddl\<close>, an advisory text that nothing
  here reads, is left out.
\<close>

record schema =
  schema_id :: string
  source_id :: string
  version :: int
  generated_at :: string
  compatible_dbs :: "string list"
  schema_fields :: "field list"
  primary_key_candidates :: "string list"
  migration_notes :: "string option"

text \<open>
  The report of \<^verbatim>\<open>_diff\<close>. The dict of the initial case has no key \<^verbatim>\<open>removed\<close> and no key
  \<^verbatim>\<open>changed\<close>: they are \<open>None\<close> there. The key \<^verbatim>\<open>notes\<close> is \<open>diff_notes\<close>.
\<close>

record diff_report =
  added :: "string list"
  removed :: "string list option"
  changed :: "string list option"
  diff_notes :: string

fun join :: "string \<Rightarrow> string list \<Rightarrow> string" where
  "join sep [] = []"
| "join sep [x] = x"
| "join sep (x # y # ys) = x @ sep @ join sep (y # ys)"

text \<open>\<^verbatim>\<open>{field["path"]: field for field in fs}\<close>\<close>

fun index_fields :: "field pydict \<Rightarrow> field list \<Rightarrow> field pydict" where
  "index_fields d [] = d"
| "index_fields d (f # fs) = index_fields (dict_set d (path f) f) fs"

definition field_changed :: "field pydict \<Rightarrow> string \<times> field \<Rightarrow> bool" where
  "field_changed prev_fields pf =
     (case dict_get prev_fields (fst pf) of
        None \<Rightarrow> False
      | Some prev_field \<Rightarrow>
          set (types (snd pf)) \<noteq> set (types prev_field) \<or> nullable (snd pf) \<noteq> nullable prev_field)"

definition diff :: "schema option \<Rightarrow> schema \<Rightarrow> diff_report" where
  "diff previous current =
     (case previous of
        None \<Rightarrow>
          \<lparr>added = map path (schema_fields current), removed = None, changed = None,
           diff_notes = ''Initial schema.''\<rparr>
      | Some prev \<Rightarrow>
          (let prev_fields = index_fields [] (schema_fields prev);
               curr_fields = index_fields [] (schema_fields current);
               added = filter (\<lambda>p. dict_get prev_fields p = None) (dict_keys curr_fields);
               removed = filter (\<lambda>p. dict_get curr_fields p = None) (dict_keys prev_fields);
               changed = map fst (filter (field_changed prev_fields) curr_fields);
               notes_parts =
                 (if added \<noteq> [] then [''Added fields: '' @ join '', '' added] else []) @
                 (if removed \<noteq> [] then [''Removed fields: '' @ join '', '' removed] else []) @
                 (if changed \<noteq> [] then [''Type/nullable changes: '' @ join '', '' changed] else [])
           in \<lparr>added = added, removed = Some removed, changed = Some changed,
               diff_notes = join ''; '' notes_parts\<rparr>))"

subsection \<open>build\<close>

definition build ::
  "env \<Rightarrow> string \<Rightarrow> int \<Rightarrow> etl_record list \<Rightarrow> schema option \<Rightarrow> error + schema \<times> diff_report"
where
  "build e src ver records previous_schema =
     (case aggregate_records (flatten_frames e) [] records of
        Inl err \<Rightarrow> Inl err
      | Inr field_stats \<Rightarrow>
          (let total_records = max 1 (length records);
               (fs, primary_candidates) =
                 emit_fields e total_records (sort_key fst field_stats) [] [];
               sch = \<lparr>schema_id = src @ ''_v'' @ str_int ver,
                      source_id = src,
                      version = ver,
                      generated_at = utcnow_isoformat e @ ''Z'',
                      compatible_dbs = self_compatible_dbs e,
                      schema_fields = fs,
                      primary_key_candidates = primary_candidates,
                      migration_notes = None\<rparr>;
               d = diff previous_schema sch
           in Inr (sch\<lparr>migration_notes := Some (diff_notes d)\<rparr>, d)))"

subsection \<open>What a build observes at a path\<close>



subsection \<open>A sample build\<close>

text \<open>
  Two records as \<^verbatim>\<open>_parse_json_fragments\<close> creates them, the schema and the report that
  \<^verbatim>\<open>build\<close> returns for them, and a record without the key \<^verbatim>\<open>data\<close>. \<^verbatim>\<open>next(iter(s))\<close> is taken
  to give the element stored first.
\<close>

definition sample_env :: env where
  "sample_env =
     \<lparr>self_compatible_dbs = [''mongodb'', ''postgresql''],
      utcnow_isoformat = ''2024-01-01T00:00:00'',
      set_first = hd,
      flatten_frames = 1000\<rparr>"

definition sample_record_a :: etl_record where
  "sample_record_a =
     \<lparr>data = Some (PDict [(''user_id'', Scalar (SInt 1)), (''b'', Scalar SNone),
                          (''c'', Scalar SNone)]),
      collection = Some ''json_objects''\<rparr>"

definition sample_record_b :: etl_record where
  "sample_record_b =
     \<lparr>data = Some (PDict [(''user_id'', Scalar (SStr ''x'')), (''b'', Scalar (SBool True))]),
      collection = Some ''json_objects''\<rparr>"

definition sample_records :: "etl_record list" where
  "sample_records = [sample_record_a, sample_record_b]"

definition sample_schema :: schema where
  "sample_schema =
     \<lparr>schema_id = ''src_v1'', source_id = ''src'', version = 1,
      generated_at = ''2024-01-01T00:00:00Z'',
      compatible_dbs = [''mongodb'', ''postgresql''],
      schema_fields =
        [\<lparr>name = ''b'', path = ''$.json_objects.b'', types = [''boolean''], nullable = True,
          example_value = Some ''True'', confidence = float_div 99 100,
          suggested_index = False\<rparr>,
         \<lparr>name = ''c'', path = ''$.json_objects.c'', types = [''string''], nullable = True,
          example_value = None, confidence = float_div 50 100, suggested_index = False\<rparr>,
         \<lparr>name = ''user_id'', path = ''$.json_objects.user_id'',
          types = [''integer'', ''string''], nullable = False, example_value = Some ''1'',
          confidence = float_div 99 100, suggested_index = True\<rparr>],
      primary_key_candidates = [''$.json_objects.user_id''],
      migration_notes = Some ''Initial schema.''\<rparr>"

definition sample_diff :: diff_report where
  "sample_diff =
     \<lparr>added = [''$.json_objects.b'', ''$.json_objects.c'', ''$.json_objects.user_id''],
      removed = None, changed = None, diff_notes = ''Initial schema.''\<rparr>"


subsection \<open>Three records, one of them with a second key\<close>




subsection \<open>Records of other shapes\<close>




definition tight_env :: env where
  "tight_env = sample_env\<lparr>flatten_frames := 2\<rparr>"

definition nested_records :: "etl_record list" where
  "nested_records =
     [\<lparr>data = Some (PList [PList [PList []]]), collection = Some ''yaml_blocks''\<rparr>]"

subsection \<open>Two schema versions\<close>

text \<open>
  Version 1 has the field \<open>$.x\<close> of type integer; version 2 has \<open>$.x\<close> of type string and
  a new field \<open>$.y\<close>.
\<close>

definition schema_v1 :: schema where
  "schema_v1 =
     \<lparr>schema_id = ''src_v1'', source_id = ''src'', version = 1,
      generated_at = ''2024-01-01T00:00:00Z'', compatible_dbs = [''mongodb'', ''postgresql''],
      schema_fields =
        [\<lparr>name = ''$.x'', path = ''$.x'', types = [''integer''], nullable = False,
          example_value = Some ''1'', confidence = float_div 99 100, suggested_index = False\<rparr>],
      primary_key_candidates = [], migration_notes = Some ''Initial schema.''\<rparr>"

definition schema_v2 :: schema where
  "schema_v2 =
     \<lparr>schema_id = ''src_v2'', source_id = ''src'', version = 2,
      generated_at = ''2024-01-02T00:00:00Z'', compatible_dbs = [''mongodb'', ''postgresql''],
      schema_fields =
        [\<lparr>name = ''$.x'', path = ''$.x'', types = [''string''], nullable = False,
          example_value = Some ''a'', confidence = float_div 99 100, suggested_index = False\<rparr>,
         \<lparr>name = ''$.y'', path = ''$.y'', types = [''integer''], nullable = False,
          example_value = Some ''2'', confidence = float_div 99 100, suggested_index = False\<rparr>],
      primary_key_candidates = [], migration_notes = None\<rparr>"

section \<open>ParserEngine.parse\<close>

text \<open>
  \<^verbatim>\<open>parse\<close> calls into the regex engine, \<^verbatim>\<open>json\<close>, BeautifulSoup, PyYAML and pandas. Their
  code is not part of the repository, so they are parameters of the model, gathered in
  \<open>libs\<close>; a call that may raise returns a sum. What is modelled is what
  \<^verbatim>\<open>parsers.py\<close> itself does: the order of the extractors, the counters, the fragments and
  records, and which exceptions each \<^verbatim>\<open>try\<close> catches.

  An exception is identified by what the handlers of \<^verbatim>\<open>parsers.py\<close> tell apart:
  \<^verbatim>\<open>json.JSONDecodeError\<close>, \<^verbatim>\<open>yaml.YAMLError\<close>, or any other subclass of \<^verbatim>\<open>Exception\<close>, with
  its class name.
\<close>

datatype exn = JSONDecodeError | YAMLError | OtherException string

record parsed_fragment =
  fragment_type :: string
  frag_start :: int
  frag_end :: int
  preview :: string
  payload :: pyval
  extra :: "pyval pydict"

text \<open>A record as \<^verbatim>\<open>parse\<close> creates it: the two keys that \<^verbatim>\<open>build\<close> reads, and the range.\<close>

record parsed_record = etl_record +
  source_range :: "int \<times> int"

record summary =
  json_fragments :: nat
  html_tables :: nat
  kv_pairs :: nat
  csv_blocks :: nat
  yaml_blocks :: nat
  text_blocks :: nat

text \<open>
  A match of \<^verbatim>\<open>JSON_PATTERN\<close> or \<^verbatim>\<open>YAML_PATTERN\<close>: start, end, and the text that the extractor
  reads (\<^verbatim>\<open>group()\<close>, \<^verbatim>\<open>group("yaml")\<close>). A match of \<^verbatim>\<open>CSV_SECTION_PATTERN\<close>: start, end,
  header and body. A match of \<^verbatim>\<open>KV_PATTERN\<close>: the groups \<^verbatim>\<open>key\<close> and \<^verbatim>\<open>value\<close>.
\<close>

type_synonym span_match = "int \<times> int \<times> string"
type_synonym csv_match = "int \<times> int \<times> string \<times> string"

text \<open>
  A \<^verbatim>\<open><table>\<close> element as the HTML extractor reads it: the texts of its \<^verbatim>\<open>th\<close> cells, the
  cell texts of each \<^verbatim>\<open>tr\<close>, and \<^verbatim>\<open>str(table)\<close>.
\<close>

record html_table =
  th_texts :: "string list"
  tr_cells :: "string list list"
  table_str :: string

text \<open>
  \<^item> \<open>data_frame rows columns\<close> is \<^verbatim>\<open>pd.DataFrame(rows, columns=columns)\<close> followed by
    \<^verbatim>\<open>to_dict(orient="records")\<close>, and \<open>read_csv\<close> is \<^verbatim>\<open>pd.read_csv(StringIO(s))\<close> followed
    by the same conversion; an exception is one of the constructor, \<^verbatim>\<open>to_dict\<close> is taken
    not to raise.
  \<^item> \<open>str_strip\<close>, \<open>str_lower\<close> and \<open>str_splitlines\<close> are the methods of \<^verbatim>\<open>str\<close>.
  \<^item> \<open>json_sub\<close> and \<open>yaml_sub\<close> are \<^verbatim>\<open>PATTERN.sub("", text)\<close>.
\<close>

record libs =
  json_finditer :: "string \<Rightarrow> span_match list"
  json_loads :: "string \<Rightarrow> exn + pyval"
  find_tables :: "string \<Rightarrow> exn + html_table list"
  data_frame :: "string list list \<Rightarrow> string list option \<Rightarrow> exn + pyval"
  yaml_finditer :: "string \<Rightarrow> span_match list"
  yaml_safe_load :: "string \<Rightarrow> exn + pyval"
  csv_finditer :: "string \<Rightarrow> csv_match list"
  read_csv :: "string \<Rightarrow> exn + pyval"
  kv_finditer :: "string \<Rightarrow> (string \<times> string) list"
  json_sub :: "string \<Rightarrow> string"
  yaml_sub :: "string \<Rightarrow> string"
  str_strip :: "string \<Rightarrow> string"
  str_lower :: "string \<Rightarrow> string"
  str_splitlines :: "string \<Rightarrow> string list"

type_synonym parse_state = "parsed_fragment list \<times> summary \<times> parsed_record list"

subsection \<open>JSON\<close>

fun parse_json_matches :: "libs \<Rightarrow> span_match list \<Rightarrow> parse_state \<Rightarrow> exn + parse_state" where
  "parse_json_matches L [] st = Inr st"
| "parse_json_matches L ((s, e, candidate) # ms) (fragments, summ, records) =
     (case json_loads L candidate of
        Inl ex \<Rightarrow>
          (if ex = JSONDecodeError then parse_json_matches L ms (fragments, summ, records)
           else Inl ex)
      | Inr parsed \<Rightarrow>
          parse_json_matches L ms
            (fragments @
               [\<lparr>fragment_type = ''json'', frag_start = s, frag_end = e,
                 preview = take 80 candidate, payload = parsed, extra = []\<rparr>],
             summ\<lparr>json_fragments := json_fragments summ + 1\<rparr>,
             records @
               [\<lparr>data = Some parsed, collection = Some ''json_objects'',
                 source_range = (s, e)\<rparr>]))"

definition parse_json_fragments :: "libs \<Rightarrow> string \<Rightarrow> parse_state \<Rightarrow> exn + parse_state" where
  "parse_json_fragments L text st = parse_json_matches L (json_finditer L text) st"

subsection \<open>HTML tables\<close>

definition table_to_dataframe :: "libs \<Rightarrow> string list \<Rightarrow> string list list \<Rightarrow> exn + pyval" where
  "table_to_dataframe L headers rows =
     (if headers \<noteq> [] \<and> length headers = length (hd rows)
      then data_frame L (tl rows) (Some headers)
      else data_frame L rows None)"

fun parse_html_tables ::
  "libs \<Rightarrow> html_table list \<Rightarrow> nat \<Rightarrow> parse_state \<Rightarrow> exn + parse_state"
where
  "parse_html_tables L [] idx st = Inr st"
| "parse_html_tables L (t # ts) idx (fragments, summ, records) =
     (let headers = th_texts t;
          rows = filter (\<lambda>cells. cells \<noteq> []) (tr_cells t)
      in if rows = [] then parse_html_tables L ts (Suc idx) (fragments, summ, records)
         else
           (case table_to_dataframe L headers rows of
              Inl ex \<Rightarrow> Inl ex
            | Inr df_records \<Rightarrow>
                parse_html_tables L ts (Suc idx)
                  (fragments @
                     [\<lparr>fragment_type = ''html_table'', frag_start = - 1, frag_end = - 1,
                       preview = take 80 (table_str t), payload = df_records, extra = []\<rparr>],
                   summ\<lparr>html_tables := html_tables summ + 1\<rparr>,
                   records @
                     [\<lparr>data = Some df_records,
                       collection = Some (''html_table_'' @ str_nat idx),
                       source_range = (- 1, - 1)\<rparr>])))"

definition parse_html_fragments :: "libs \<Rightarrow> string \<Rightarrow> parse_state \<Rightarrow> exn + parse_state" where
  "parse_html_fragments L text st =
     (case find_tables L text of
        Inl ex \<Rightarrow> Inl ex
      | Inr tables \<Rightarrow> parse_html_tables L tables 0 st)"

subsection \<open>YAML\<close>

fun parse_yaml_matches :: "libs \<Rightarrow> span_match list \<Rightarrow> parse_state \<Rightarrow> exn + parse_state" where
  "parse_yaml_matches L [] st = Inr st"
| "parse_yaml_matches L ((s, e, group_yaml) # ms) (fragments, summ, records) =
     (let yaml_text = str_strip L group_yaml
      in if yaml_text = [] then parse_yaml_matches L ms (fragments, summ, records)
         else
           (case yaml_safe_load L yaml_text of
              Inl ex \<Rightarrow>
                (if ex = YAMLError then parse_yaml_matches L ms (fragments, summ, records)
                 else Inl ex)
            | Inr loaded \<Rightarrow>
                parse_yaml_matches L ms
                  (fragments @
                     [\<lparr>fragment_type = ''yaml'', frag_start = s, frag_end = e,
                       preview = take 80 yaml_text, payload = loaded, extra = []\<rparr>],
                   summ\<lparr>yaml_blocks := yaml_blocks summ + 1\<rparr>,
                   records @
                     [\<lparr>data = Some loaded, collection = Some ''yaml_blocks'',
                       source_range = (s, e)\<rparr>])))"

definition parse_yaml_blocks :: "libs \<Rightarrow> string \<Rightarrow> parse_state \<Rightarrow> exn + parse_state" where
  "parse_yaml_blocks L text st = parse_yaml_matches L (yaml_finditer L text) st"

subsection \<open>CSV\<close>

text \<open>
  \<^verbatim>\<open>except Exception\<close> catches every exception of the model. The preview subscripts
  \<^verbatim>\<open>csv_text.splitlines()\<close> at 0, outside the \<^verbatim>\<open>try\<close>.
\<close>

fun parse_csv_matches ::
  "libs \<Rightarrow> csv_match list \<Rightarrow> (int \<times> int) list \<Rightarrow> parse_state \<Rightarrow> exn + parse_state"
where
  "parse_csv_matches L [] seen_spans st = Inr st"
| "parse_csv_matches L ((s, e, header, body) # ms) seen_spans (fragments, summ, records) =
     (if (s, e) \<in> set seen_spans then parse_csv_matches L ms seen_spans (fragments, summ, records)
      else
        (let seen_spans = seen_spans @ [(s, e)];
             csv_text = header @ [CHR 0x0A] @ body
         in case read_csv L csv_text of
              Inl ex \<Rightarrow> parse_csv_matches L ms seen_spans (fragments, summ, records)
            | Inr df_records \<Rightarrow>
                (case str_splitlines L csv_text of
                   [] \<Rightarrow> Inl (OtherException ''IndexError'')
                 | first_line # _ \<Rightarrow>
                     parse_csv_matches L ms seen_spans
                       (fragments @
                          [\<lparr>fragment_type = ''csv'', frag_start = s, frag_end = e,
                            preview = take 80 first_line, payload = df_records, extra = []\<rparr>],
                        summ\<lparr>csv_blocks := csv_blocks summ + 1\<rparr>,
                        records @
                          [\<lparr>data = Some df_records, collection = Some ''csv_blocks'',
                            source_range = (s, e)\<rparr>]))))"

definition parse_csv_blocks :: "libs \<Rightarrow> string \<Rightarrow> parse_state \<Rightarrow> exn + parse_state" where
  "parse_csv_blocks L text st = parse_csv_matches L (csv_finditer L text) [] st"

subsection \<open>Key-value lines\<close>

definition kv_pair :: "libs \<Rightarrow> string \<times> string \<Rightarrow> string \<times> string" where
  "kv_pair L m =
     (map (\<lambda>c. if c = CHR '' '' then CHR ''_'' else c) (str_lower L (str_strip L (fst m))),
      str_strip L (snd m))"

definition parse_key_values :: "libs \<Rightarrow> string \<Rightarrow> parse_state \<Rightarrow> exn + parse_state" where
  "parse_key_values L text st =
     (case st of (fragments, summ, records) \<Rightarrow>
        (case map (kv_pair L) (kv_finditer L text) of
           [] \<Rightarrow> Inr st
         | (k0, v0) # rest \<Rightarrow>
             (let pairs = (k0, v0) # rest
              in Inr
                (fragments @
                   [\<lparr>fragment_type = ''key_value_pairs'', frag_start = - 1, frag_end = - 1,
                     preview = k0 @ ''='' @ v0,
                     payload =
                       PList (map (\<lambda>(k, v). PDict [(''key'', Scalar (SStr k)),
                                                   (''value'', Scalar (SStr v))]) pairs),
                     extra = []\<rparr>],
                 summ\<lparr>kv_pairs := kv_pairs summ + length pairs\<rparr>,
                 records @
                   [\<lparr>data =
                       Some (PDict (foldl (\<lambda>d (k, v). dict_set d k (Scalar (SStr v))) [] pairs)),
                     collection = Some ''key_values'',
                     source_range = (- 1, - 1)\<rparr>]))))"

subsection \<open>Text blocks\<close>

fun emit_text_blocks :: "string list \<Rightarrow> nat \<Rightarrow> parsed_fragment list \<Rightarrow> parsed_record list \<Rightarrow>
    parsed_fragment list \<times> parsed_record list" where
  "emit_text_blocks [] idx fragments records = (fragments, records)"
| "emit_text_blocks (block # blocks) idx fragments records =
     emit_text_blocks blocks (Suc idx)
       (fragments @
          [\<lparr>fragment_type = ''text'', frag_start = - 1, frag_end = - 1,
            preview = take 80 block, payload = PDict [(''text'', Scalar (SStr block))],
            extra = []\<rparr>])
       (records @
          [\<lparr>data = Some (PDict [(''text'', Scalar (SStr block)),
                                 (''sequence'', Scalar (SInt (int idx)))]),
            collection = Some ''text_blocks'',
            source_range = (- 1, - 1)\<rparr>])"

definition parse_text_blocks :: "libs \<Rightarrow> string \<Rightarrow> parse_state \<Rightarrow> exn + parse_state" where
  "parse_text_blocks L text st =
     (case st of (fragments0, summ, records) \<Rightarrow>
        (let sanitized = yaml_sub L (json_sub L text);
             blocks = filter (\<lambda>b. b \<noteq> []) (map (str_strip L) (str_splitlines L sanitized))
         in if blocks = [] then Inr st
            else
              (let (fragments, records') = emit_text_blocks blocks 0 [] records
               in Inr (fragments0 @ fragments,
                       summ\<lparr>text_blocks := text_blocks summ + length blocks\<rparr>,
                       records'))))"

subsection \<open>parse\<close>

definition empty_summary :: summary where
  "empty_summary =
     \<lparr>json_fragments = 0, html_tables = 0, kv_pairs = 0, csv_blocks = 0, yaml_blocks = 0,
      text_blocks = 0\<rparr>"

definition bind_exn :: "exn + 'a \<Rightarrow> ('a \<Rightarrow> exn + 'b) \<Rightarrow> exn + 'b" where
  "bind_exn r f = (case r of Inl ex \<Rightarrow> Inl ex | Inr x \<Rightarrow> f x)"

definition parse :: "libs \<Rightarrow> string \<Rightarrow> exn + parse_state" where
  "parse L text =
     bind_exn (parse_json_fragments L text ([], empty_summary, [])) (\<lambda>st.
     bind_exn (parse_html_fragments L text st) (\<lambda>st.
     bind_exn (parse_yaml_blocks L text st) (\<lambda>st.
     bind_exn (parse_csv_blocks L text st) (\<lambda>st.
     bind_exn (parse_key_values L text st) (\<lambda>st.
     parse_text_blocks L text st)))))"

subsection \<open>A text with a YAML block that PyYAML rejects with a ValueError\<close>

text \<open>
  The text is \<^verbatim>\<open>---\<close>, a newline, and \<^verbatim>\<open>2001-13-45\<close>. It has no brace and no table;
  \<^verbatim>\<open>YAML_PATTERN\<close> matches all of it, with the group \<^verbatim>\<open>2001-13-45\<close>, which \<^verbatim>\<open>strip\<close> leaves
  as it is. PyYAML resolves that scalar as a timestamp and builds \<^verbatim>\<open>datetime.date(2001, 13, 45)\<close>,
  which raises \<^verbatim>\<open>ValueError\<close>, not a \<^verbatim>\<open>yaml.YAMLError\<close>. \<open>yaml_date_libs\<close> gives the answers of
  the libraries on this text; what \<^verbatim>\<open>parse\<close> does not reach there is filled in arbitrarily.
\<close>

definition yaml_date_text :: string where
  "yaml_date_text = ''---'' @ [CHR 0x0A] @ ''2001-13-45''"

definition yaml_date_libs :: libs where
  "yaml_date_libs =
     \<lparr>json_finditer = (\<lambda>t. []),
      json_loads = (\<lambda>c. Inl JSONDecodeError),
      find_tables = (\<lambda>t. Inr []),
      data_frame = (\<lambda>rows columns. Inr (PList [])),
      yaml_finditer = (\<lambda>t. if t = yaml_date_text then [(0, 14, ''2001-13-45'')] else []),
      yaml_safe_load =
        (\<lambda>y. if y = ''2001-13-45'' then Inl (OtherException ''ValueError'') else Inl YAMLError),
      csv_finditer = (\<lambda>t. []),
      read_csv = (\<lambda>c. Inl (OtherException ''ParserError'')),
      kv_finditer = (\<lambda>t. []),
      json_sub = (\<lambda>t. t),
      yaml_sub = (\<lambda>t. t),
      str_strip = (\<lambda>t. t),
      str_lower = (\<lambda>t. t),
      str_splitlines = (\<lambda>t. [t])\<rparr>"

section \<open>Insertion-ordered dicts\<close>


lemma keys_dict_set:
  "map fst (dict_set d k v) = (if k \<in> set (map fst d) then map fst d else map fst d @ [k])"
  by (induction d) (auto simp: rev_image_eqI)

lemma distinct_dict_set: "distinct (map fst d) \<Longrightarrow> distinct (map fst (dict_set d k v))"
  by (simp add: keys_dict_set)


section \<open>Properties of flatten\<close>


lemma flatten_dict_foldl:
  "flatten_dict kvs p items =
     foldl dict_update items (map (\<lambda>(k, v). flatten v (dict_child_prefix p k)) kvs)"
  by (induction kvs arbitrary: items) auto

lemma flatten_list_foldl:
  "flatten_list vs p i items =
     foldl dict_update items (map (\<lambda>(j, v). flatten v (list_child_prefix p j)) (enumerate i vs))"
  by (induction vs arbitrary: items i) auto

text \<open>
  C3, as the code has it. Under a non-empty prefix \<open>p\<close> (\<^verbatim>\<open>build\<close> passes
  \<^verbatim>\<open>$.<collection>\<close>): a scalar, \<^verbatim>\<open>None\<close> included, gives the single entry \<open>p\<close>; a dict gives
  the entries of each value under \<open>p.k\<close>, and a list those of each element under \<open>p[i]\<close>,
  merged from left to right as \<^verbatim>\<open>dict.update\<close> does, recursively. An empty dict and an
  empty list give no entry at all.
\<close>

theorem flatten_paths:
  "p \<noteq> [] \<Longrightarrow>
     flatten (Scalar s) p = [(p, s)] \<and>
     flatten (PDict kvs) p =
       foldl dict_update [] (map (\<lambda>(k, v). flatten v (p @ ''.'' @ k)) kvs) \<and>
     flatten (PList vs) p =
       foldl dict_update []
         (map (\<lambda>(i, v). flatten v (p @ ''['' @ str_nat i @ '']'')) (enumerate 0 vs)) \<and>
     flatten (PDict []) p = [] \<and>
     flatten (PList []) p = []"
  by (simp add: flatten_dict_foldl flatten_list_foldl dict_child_prefix_def list_child_prefix_def)

theorem flatten_paths_witness:
  "''$.json_objects'' \<noteq> [] \<and>
   flatten (PDict [(''a'', Scalar (SInt 1)), (''b'', PList [Scalar SNone, PDict []])])
     ''$.json_objects''
   = [(''$.json_objects.a'', SInt 1), (''$.json_objects.b[0]'', SNone)]"
  using flatten_paths [of "''$.json_objects''" "SInt 1"
      "[(''a'', Scalar (SInt 1)), (''b'', PList [Scalar SNone, PDict []])]" "[]"]
  by (simp add: dict_child_prefix_def list_child_prefix_def str_nat.simps digit_char_def)

text \<open>
  C3 as the specification states it fails: an empty dict and an empty list at a path leave
  no entry for that path, here \<open>$.json_objects.meta\<close> and \<open>$.json_objects.tags\<close>.
\<close>

theorem flatten_empty_container_counterexample:
  "flatten (PDict [(''meta'', PDict []), (''tags'', PList []), (''n'', Scalar (SInt 1))])
     ''$.json_objects''
   = [(''$.json_objects.n'', SInt 1)]"
  by (simp add: dict_child_prefix_def)

section \<open>Properties of infer_type\<close>

text \<open>
  C2. \<^verbatim>\<open>infer_type\<close> answers \<open>boolean\<close> for a boolean although the integer test holds of it
  too, since the boolean test comes first; then \<open>integer\<close>, \<open>number\<close>, \<open>array\<close>, \<open>object\<close>,
  and \<open>string\<close> for everything else. A \<^verbatim>\<open>None\<close> observed at a path raises the count and the
  nullable flag of the path and leaves its type set (and its examples) as they were.
\<close>

theorem infer_type_precedence:
  "isinstance_int (Scalar (SBool b)) \<and>
   infer_type (Scalar (SBool b)) = ''boolean'' \<and>
   infer_type (Scalar (SBool b)) \<noteq> ''integer'' \<and>
   infer_type (Scalar (SInt i)) = ''integer'' \<and>
   infer_type (Scalar (SFloat r)) = ''number'' \<and>
   infer_type (PList vs) = ''array'' \<and>
   infer_type (PDict kvs) = ''object'' \<and>
   infer_type (Scalar (SStr t)) = ''string'' \<and>
   infer_type (Scalar (SObj t)) = ''string'' \<and>
   infer_type (Scalar SNone) = ''null'' \<and>
   st_types (observe stats SNone) = st_types stats \<and>
   examples (observe stats SNone) = examples stats \<and>
   st_nullable (observe stats SNone) \<and>
   count (observe stats SNone) = count stats + 1"
  by (simp add: infer_type_def observe_def)

section \<open>Properties of the diff\<close>

lemma distinct_index_fields:
  "distinct (map fst d) \<Longrightarrow> distinct (map fst (index_fields d fs))"
  by (induction fs arbitrary: d) (simp_all add: distinct_dict_set)

lemma dict_get_keys: "k \<in> set (dict_keys d) \<Longrightarrow> dict_get d k \<noteq> None"
  by (simp add: dict_get_def dict_keys_def map_of_eq_None_iff)

lemma dict_get_item: "distinct (map fst d) \<Longrightarrow> (k, v) \<in> set d \<Longrightarrow> dict_get d k = Some v"
  by (simp add: dict_get_def)

lemma filter_absent_self: "filter (\<lambda>p. dict_get d p = None) (dict_keys d) = []"
  by (simp add: filter_empty_conv dict_get_keys)

lemma unchanged_self:
  "distinct (map fst d) \<Longrightarrow> filter (field_changed d) d = []"
  by (auto simp: filter_empty_conv field_changed_def dict_get_item)

text \<open>
  C7. With no previous schema the report lists every field path of the current schema, in
  the order of its fields, as added; its notes are \<open>Initial schema.\<close>; and it has neither a
  \<open>removed\<close> nor a \<open>changed\<close> key.
\<close>

theorem diff_initial:
  "diff None S =
     \<lparr>added = map path (schema_fields S), removed = None, changed = None,
      diff_notes = ''Initial schema.''\<rparr>"
  by (simp add: diff_def)

lemma changed_only_differing:
  assumes "changed (diff (Some P) S) = Some ps" and "p \<in> set ps"
  shows "\<exists>f g. dict_get (index_fields [] (schema_fields S)) p = Some f \<and>
           dict_get (index_fields [] (schema_fields P)) p = Some g \<and>
           (set (types f) \<noteq> set (types g) \<or> nullable f \<noteq> nullable g)"
proof -
  let ?c = "index_fields [] (schema_fields S)"
  let ?p = "index_fields [] (schema_fields P)"
  have dist: "distinct (map fst ?c)"
    by (rule distinct_index_fields) simp
  from assms have "p \<in> fst ` set (filter (field_changed ?p) ?c)"
    by (auto simp: diff_def Let_def)
  then obtain f where f: "(p, f) \<in> set ?c" and ch: "field_changed ?p (p, f)"
    by auto
  from dict_get_item [OF dist f] have "dict_get ?c p = Some f" .
  with ch show ?thesis
    by (auto simp: field_changed_def split: option.splits)
qed

text \<open>
  C8. The diff of a schema document against itself has empty \<open>added\<close>, \<open>removed\<close> and
  \<open>changed\<close> lists and an empty notes string. In the diff against any previous schema, a
  path in \<open>changed\<close> is a path of both schemas whose type sets or nullable flags differ.
\<close>

theorem diff_self:
  "diff (Some S) S = \<lparr>added = [], removed = Some [], changed = Some [], diff_notes = []\<rparr> \<and>
   (changed (diff (Some P) S) = Some ps \<longrightarrow> p \<in> set ps \<longrightarrow>
      (\<exists>f g. dict_get (index_fields [] (schema_fields S)) p = Some f \<and>
             dict_get (index_fields [] (schema_fields P)) p = Some g \<and>
             (set (types f) \<noteq> set (types g) \<or> nullable f \<noteq> nullable g)))"
proof -
  have "distinct (map fst (index_fields [] (schema_fields S)))"
    by (rule distinct_index_fields) simp
  then have "diff (Some S) S =
      \<lparr>added = [], removed = Some [], changed = Some [], diff_notes = []\<rparr>"
    by (simp add: diff_def Let_def filter_absent_self unchanged_self)
  then show ?thesis
    using changed_only_differing [of P S ps p] by blast
qed

theorem diff_self_witness:
  "diff (Some schema_v1) schema_v2 =
     \<lparr>added = [''$.y''], removed = Some [], changed = Some [''$.x''],
      diff_notes = ''Added fields: $.y; Type/nullable changes: $.x''\<rparr> \<and>
   map_option types (dict_get (index_fields [] (schema_fields schema_v2)) ''$.x'') =
     Some [''string''] \<and>
   map_option types (dict_get (index_fields [] (schema_fields schema_v1)) ''$.x'') =
     Some [''integer''] \<and>
   diff (Some schema_v2) schema_v2 =
     \<lparr>added = [], removed = Some [], changed = Some [], diff_notes = []\<rparr>"
proof -
  have d: "diff (Some schema_v1) schema_v2 =
     \<lparr>added = [''$.y''], removed = Some [], changed = Some [''$.x''],
      diff_notes = ''Added fields: $.y; Type/nullable changes: $.x''\<rparr>"
    by code_simp
  have t2: "map_option types (dict_get (index_fields [] (schema_fields schema_v2)) ''$.x'') =
     Some [''string'']"
    and t1: "map_option types (dict_get (index_fields [] (schema_fields schema_v1)) ''$.x'') =
     Some [''integer'']"
    by code_simp+
  have c: "changed (diff (Some schema_v1) schema_v2) = Some [''$.x'']"
    by (simp add: d)
  have m: "''$.x'' \<in> set [''$.x'']"
    by simp
  from diff_self [of schema_v2 schema_v1 "[''$.x'']" "''$.x''"] c m
  have "diff (Some schema_v2) schema_v2 =
     \<lparr>added = [], removed = Some [], changed = Some [], diff_notes = []\<rparr>"
    by blast
  with d t2 t1 show ?thesis by blast
qed

section \<open>Properties of build\<close>





lemma distinct_aggregate_items:
  "distinct (map fst fs) \<Longrightarrow> distinct (map fst (aggregate_items fs items))"
  by (induction fs items rule: aggregate_items.induct) (simp_all add: distinct_dict_set)

lemma distinct_aggregate_records:
  "distinct (map fst fs) \<Longrightarrow> aggregate_records n fs rs = Inr fs' \<Longrightarrow> distinct (map fst fs')"
proof (induction rs arbitrary: fs)
  case Nil
  then show ?case by simp
next
  case (Cons r rs)
  from Cons.prems(2) obtain items where
    "aggregate_records n (aggregate_items fs items) rs = Inr fs'"
    by (auto simp: flatten_call_def split: option.splits if_splits)
  moreover have "distinct (map fst (aggregate_items fs items))"
    using Cons.prems(1) by (rule distinct_aggregate_items)
  ultimately show ?case using Cons.IH by blast
qed




lemma emit_fields_eq:
  "emit_fields e n xs acc pcs =
     (acc @ map (\<lambda>(p, st). field_entry e n p st) xs,
      pcs @ map path (filter suggested_index (map (\<lambda>(p, st). field_entry e n p st) xs)))"
  by (induction xs arbitrary: acc pcs) (auto simp: Let_def)

lemma endswith_iff: "endswith s suffix \<longleftrightarrow> (\<exists>pre. s = pre @ suffix)"
proof
  assume "endswith s suffix"
  then have "s = take (length s - length suffix) s @ suffix"
    by (metis append_take_drop_id endswith_def)
  then show "\<exists>pre. s = pre @ suffix" ..
next
  assume "\<exists>pre. s = pre @ suffix"
  then show "endswith s suffix" by (auto simp: endswith_def)
qed

lemma path_field_entry: "path (field_entry e n p st) = p"
  by (simp add: field_entry_def)

lemma build_fields:
  assumes "build e src ver rs prev = Inr (S, d)"
  shows "\<exists>stats. aggregate_records (flatten_frames e) [] rs = Inr stats \<and>
           schema_fields S =
             map (\<lambda>(p, st). field_entry e (max 1 (length rs)) p st) (sort_key fst stats) \<and>
           primary_key_candidates S = map path (filter suggested_index (schema_fields S))"
  using assms
  by (auto simp: build_def emit_fields_eq Let_def split: sum.splits)





lemma sample_build:
  "build sample_env ''src'' 1 sample_records None = Inr (sample_schema, sample_diff)"
  by code_simp

text \<open>
  C5. In every schema document that \<^verbatim>\<open>build\<close> returns, the fields are in ascending
  lexicographic order of their paths, which are distinct; a field has \<open>suggested_index\<close>
  exactly when its path ends with \<open>id\<close>; and the primary key candidates are the paths of
  the fields with \<open>suggested_index\<close>, in field order.
\<close>

theorem fields_sorted_and_indexed:
  assumes "build e src ver rs prev = Inr (S, d)"
  shows "sorted (map path (schema_fields S)) \<and>
         distinct (map path (schema_fields S)) \<and>
         (\<forall>f \<in> set (schema_fields S). suggested_index f \<longleftrightarrow> (\<exists>pre. path f = pre @ ''id'')) \<and>
         primary_key_candidates S = map path (filter suggested_index (schema_fields S))"
proof -
  from build_fields [OF assms] obtain stats where
    agg: "aggregate_records (flatten_frames e) [] rs = Inr stats" and
    fs: "schema_fields S =
      map (\<lambda>(p, st). field_entry e (max 1 (length rs)) p st) (sort_key fst stats)" and
    pk: "primary_key_candidates S = map path (filter suggested_index (schema_fields S))"
    by blast
  have paths: "map path (schema_fields S) = map fst (sort_key fst stats)"
    by (simp add: fs path_field_entry split_def)
  have "distinct (map fst stats)"
    using distinct_aggregate_records [OF _ agg] by simp
  then have "distinct (map fst (sort_key fst stats))"
    by (simp add: distinct_map)
  moreover have "sorted (map fst (sort_key fst stats))"
    by (rule sorted_sort_key)
  moreover have "\<forall>f \<in> set (schema_fields S). suggested_index f \<longleftrightarrow> (\<exists>pre. path f = pre @ ''id'')"
    by (auto simp: fs field_entry_def endswith_iff)
  ultimately show ?thesis using pk by (simp add: paths)
qed

theorem fields_sorted_and_indexed_witness:
  "build sample_env ''src'' 1 sample_records None = Inr (sample_schema, sample_diff) \<and>
   map path (schema_fields sample_schema) =
     [''$.json_objects.b'', ''$.json_objects.c'', ''$.json_objects.user_id''] \<and>
   map suggested_index (schema_fields sample_schema) = [False, False, True] \<and>
   primary_key_candidates sample_schema = [''$.json_objects.user_id'']"
  using sample_build fields_sorted_and_indexed [OF sample_build]
  by (simp add: sample_schema_def)











lemma nested_build: "build tight_env ''src'' 1 nested_records None = Inl RecursionError"
  by code_simp




section \<open>Properties of the confidence\<close>
























section \<open>Properties of parse\<close>

text \<open>
  A candidate whose parse raises the exception that the extractor catches is skipped: it
  adds no fragment, no record and no count.
\<close>

lemma json_candidate_skipped:
  "json_loads L c = Inl JSONDecodeError \<Longrightarrow>
   parse_json_matches L ((s, e, c) # ms) st = parse_json_matches L ms st"
  by (cases st) simp

lemma yaml_candidate_skipped:
  "yaml_safe_load L (str_strip L g) = Inl YAMLError \<Longrightarrow>
   parse_yaml_matches L ((s, e, g) # ms) st = parse_yaml_matches L ms st"
  by (cases st) (simp add: Let_def)

lemma csv_candidate_skipped:
  "read_csv L (h @ [CHR 0x0A] @ b) = Inl ex \<Longrightarrow> (s, e) \<notin> set seen \<Longrightarrow>
   parse_csv_matches L ((s, e, h, b) # ms) seen st = parse_csv_matches L ms (seen @ [(s, e)]) st"
  by (cases st) (simp add: Let_def)

lemma yaml_matches_raise:
  assumes "\<forall>(s', e', g') \<in> set ms1.
      str_strip L g' = [] \<or> yaml_safe_load L (str_strip L g') = Inl YAMLError \<or>
      (\<exists>v. yaml_safe_load L (str_strip L g') = Inr v)"
    and "str_strip L g \<noteq> []"
    and "yaml_safe_load L (str_strip L g) = Inl ex"
    and "ex \<noteq> YAMLError"
  shows "parse_yaml_matches L (ms1 @ (s, e, g) # ms2) st = Inl ex"
  using assms(1)
proof (induction ms1 arbitrary: st)
  case Nil
  show ?case using assms(2-4) by (cases st) (simp add: Let_def)
next
  case (Cons m ms1)
  obtain s' e' g' where m: "m = (s', e', g')" by (cases m)
  obtain fr sm rs where st: "st = (fr, sm, rs)" by (cases st)
  from Cons.prems have rest: "\<forall>(s', e', g') \<in> set ms1.
      str_strip L g' = [] \<or> yaml_safe_load L (str_strip L g') = Inl YAMLError \<or>
      (\<exists>v. yaml_safe_load L (str_strip L g') = Inr v)" by simp
  from Cons.prems m have
    "str_strip L g' = [] \<or> yaml_safe_load L (str_strip L g') = Inl YAMLError \<or>
      (\<exists>v. yaml_safe_load L (str_strip L g') = Inr v)" by simp
  then show ?case
    using Cons.IH [OF rest] by (auto simp: m st Let_def)
qed

text \<open>
  When every exception of the libraries is one that its extractor catches, and the HTML
  extractor, which has no handler, meets none, \<^verbatim>\<open>parse\<close> returns.
\<close>

lemma json_matches_return:
  assumes "\<forall>c ex. json_loads L c = Inl ex \<longrightarrow> ex = JSONDecodeError"
  shows "\<exists>st'. parse_json_matches L ms st = Inr st'"
proof (induction ms arbitrary: st)
  case Nil
  show ?case by (cases st) auto
next
  case (Cons m ms)
  obtain s e c where m: "m = (s, e, c)" by (cases m)
  obtain fr sm rs where st: "st = (fr, sm, rs)" by (cases st) auto
  show ?case
    using Cons.IH assms by (auto simp: m st split: sum.splits)
qed

lemma html_tables_return:
  assumes "\<forall>rows cols ex. data_frame L rows cols \<noteq> Inl ex"
  shows "\<exists>st'. parse_html_tables L ts idx st = Inr st'"
proof (induction ts arbitrary: idx st)
  case Nil
  show ?case by (cases st) auto
next
  case (Cons t ts)
  obtain fr sm rs where st: "st = (fr, sm, rs)" by (cases st) auto
  show ?case
    using Cons.IH assms
    by (auto simp: st Let_def table_to_dataframe_def split: sum.splits)
qed

lemma yaml_matches_return:
  assumes "\<forall>y ex. yaml_safe_load L y = Inl ex \<longrightarrow> ex = YAMLError"
  shows "\<exists>st'. parse_yaml_matches L ms st = Inr st'"
proof (induction ms arbitrary: st)
  case Nil
  show ?case by (cases st) auto
next
  case (Cons m ms)
  obtain s e g where m: "m = (s, e, g)" by (cases m)
  obtain fr sm rs where st: "st = (fr, sm, rs)" by (cases st) auto
  show ?case
    using Cons.IH assms by (auto simp: m st Let_def split: sum.splits)
qed

lemma csv_matches_return:
  assumes "\<forall>t. t \<noteq> [] \<longrightarrow> str_splitlines L t \<noteq> []"
  shows "\<exists>st'. parse_csv_matches L ms seen st = Inr st'"
proof (induction ms arbitrary: seen st)
  case Nil
  show ?case by (cases st) auto
next
  case (Cons m ms)
  obtain s e h b where m: "m = (s, e, h, b)" by (cases m) auto
  obtain fr sm rs where st: "st = (fr, sm, rs)" by (cases st) auto
  have "str_splitlines L (h @ [CHR 0x0A] @ b) \<noteq> []"
    using assms by simp
  then show ?case
    using Cons.IH by (auto simp: m st Let_def split: sum.splits list.splits)
qed

lemma key_values_return: "\<exists>st'. parse_key_values L text st = Inr st'"
  by (auto simp: parse_key_values_def Let_def split: prod.splits list.splits)

lemma text_blocks_return: "\<exists>st'. parse_text_blocks L text st = Inr st'"
  by (auto simp: parse_text_blocks_def Let_def split: prod.splits)

lemma parse_returns_when_handlers_suffice:
  assumes "\<forall>c ex. json_loads L c = Inl ex \<longrightarrow> ex = JSONDecodeError"
    and "\<forall>ex. find_tables L text \<noteq> Inl ex"
    and "\<forall>rows cols ex. data_frame L rows cols \<noteq> Inl ex"
    and "\<forall>y ex. yaml_safe_load L y = Inl ex \<longrightarrow> ex = YAMLError"
    and "\<forall>t. t \<noteq> [] \<longrightarrow> str_splitlines L t \<noteq> []"
  shows "\<exists>st. parse L text = Inr st"
proof -
  obtain st1 where 1: "parse_json_fragments L text ([], empty_summary, []) = Inr st1"
    using json_matches_return [OF assms(1)] unfolding parse_json_fragments_def by blast
  obtain st2 where 2: "parse_html_fragments L text st1 = Inr st2"
  proof (cases "find_tables L text")
    case (Inl ex)
    with assms(2) show ?thesis by simp
  next
    case (Inr ts)
    from html_tables_return [OF assms(3), of ts 0 st1] obtain st' where
      "parse_html_tables L ts 0 st1 = Inr st'" by blast
    with Inr that show ?thesis by (simp add: parse_html_fragments_def)
  qed
  obtain st3 where 3: "parse_yaml_blocks L text st2 = Inr st3"
    using yaml_matches_return [OF assms(4)] unfolding parse_yaml_blocks_def by blast
  obtain st4 where 4: "parse_csv_blocks L text st3 = Inr st4"
    using csv_matches_return [OF assms(5)] unfolding parse_csv_blocks_def by blast
  obtain st5 where 5: "parse_key_values L text st4 = Inr st5"
    using key_values_return by blast
  obtain st6 where 6: "parse_text_blocks L text st5 = Inr st6"
    using text_blocks_return by blast
  show ?thesis
    unfolding parse_def bind_exn_def by (simp only: 1 2 3 4 5 6 sum.case) blast
qed

text \<open>
  C1 fails on the code. \<^verbatim>\<open>_parse_yaml_blocks\<close> catches \<^verbatim>\<open>yaml.YAMLError\<close> only: when the JSON
  and HTML extractors have returned and the load of a non-empty YAML candidate raises any
  other exception, while the candidates before it were skipped or loaded, \<^verbatim>\<open>parse\<close> raises
  that exception instead of skipping the candidate.
\<close>

theorem parse_raises_uncaught_yaml_error:
  assumes "parse_json_fragments L text ([], empty_summary, []) = Inr st1"
    and "parse_html_fragments L text st1 = Inr st2"
    and "yaml_finditer L text = ms1 @ (s, e, g) # ms2"
    and "\<forall>(s', e', g') \<in> set ms1.
      str_strip L g' = [] \<or> yaml_safe_load L (str_strip L g') = Inl YAMLError \<or>
      (\<exists>v. yaml_safe_load L (str_strip L g') = Inr v)"
    and "str_strip L g \<noteq> []"
    and "yaml_safe_load L (str_strip L g) = Inl ex"
    and "ex \<noteq> YAMLError"
  shows "parse L text = Inl ex"
  using yaml_matches_raise [OF assms(4-7), of s e ms2 st2]
  by (simp add: parse_def bind_exn_def assms(1-3) parse_yaml_blocks_def)

theorem parse_raises_uncaught_yaml_error_witness:
  "parse yaml_date_libs yaml_date_text = Inl (OtherException ''ValueError'')"
proof -
  have j: "parse_json_fragments yaml_date_libs yaml_date_text ([], empty_summary, []) =
      Inr ([], empty_summary, [])"
    by (simp add: parse_json_fragments_def yaml_date_libs_def)
  have h: "parse_html_fragments yaml_date_libs yaml_date_text ([], empty_summary, []) =
      Inr ([], empty_summary, [])"
    by (simp add: parse_html_fragments_def yaml_date_libs_def)
  have y: "yaml_finditer yaml_date_libs yaml_date_text = [] @ (0, 14, ''2001-13-45'') # []"
    by (simp add: yaml_date_libs_def)
  show ?thesis
    using parse_raises_uncaught_yaml_error [OF j h y, of "OtherException ''ValueError''"]
    by (simp add: yaml_date_libs_def)
qed

end
